theory Spec2Isabelle
  imports Main "HOL-Library.Word"
begin

section \<open>Python values that flow through the mining service\<close>

text \<open>
  The service in \<^verbatim>\<open>src/mining/service.py\<close> is dynamically typed: passwords arrive
  from JSON, block header and hash are either a value or \<^verbatim>\<open>False\<close>, and the validator's
  \<^verbatim>\<open>shareAtOldDiff\<close> is either a difficulty or a sentinel. Those values are modelled by
  \<open>pyval\<close>; \<open>PyNone\<close> is Python's \<^verbatim>\<open>None\<close>. Numbers are unbounded integers (the service
  never computes with them, it only passes them on).
\<close>

datatype pyval = PyNone | PyBool bool | PyInt int | PyStr string

text \<open>Python's \<^verbatim>\<open>bool(v)\<close>.\<close>

fun py_truthy :: "pyval \<Rightarrow> bool" where
  "py_truthy PyNone = False"
| "py_truthy (PyBool b) = b"
| "py_truthy (PyInt n) = (n \<noteq> 0)"
| "py_truthy (PyStr s) = (s \<noteq> [])"

text \<open>Python's \<^verbatim>\<open>a == b\<close>: \<^verbatim>\<open>bool\<close> is a subclass of \<^verbatim>\<open>int\<close>, so \<^verbatim>\<open>False == 0\<close>.\<close>

fun py_num :: "pyval \<Rightarrow> int option" where
  "py_num (PyBool b) = Some (if b then 1 else 0)"
| "py_num (PyInt n) = Some n"
| "py_num PyNone = None"
| "py_num (PyStr s) = None"

definition py_eq :: "pyval \<Rightarrow> pyval \<Rightarrow> bool" where
  "py_eq a b = (case py_num a of
                  Some x \<Rightarrow> (case py_num b of Some y \<Rightarrow> x = y | None \<Rightarrow> False)
                | None \<Rightarrow> (case py_num b of Some y \<Rightarrow> False | None \<Rightarrow> a = b))"

type_synonym byte = "8 word"

text \<open>\<^verbatim>\<open>binascii.hexlify\<close>: two lower-case hexadecimal digits per byte.\<close>

definition hexdigit :: "nat \<Rightarrow> char" where
  "hexdigit n = ''0123456789abcdef'' ! (n mod 16)"

definition hexlify :: "byte list \<Rightarrow> string" where
  "hexlify bs = concat (map (\<lambda>b. [hexdigit (unat b div 16), hexdigit (unat b mod 16)]) bs)"

section \<open>Session, exceptions and collaborator calls\<close>

text \<open>
  The session is the dictionary returned by \<^verbatim>\<open>connection_ref().get_session()\<close>. Each of the
  three keys the service uses is a field; \<open>None\<close> means the key is absent from the dictionary.
\<close>

record session =
  extranonce1 :: "byte list option"
  difficulty :: "pyval option"
  authorized :: "(string \<rightharpoonup> pyval) option"

text \<open>
  The service raises \<^verbatim>\<open>SubmitException\<close> with a message for every failure of its own;
  \<^verbatim>\<open>session['difficulty']\<close> raises \<^verbatim>\<open>KeyError\<close> when the key is absent, and the
  evaluation of a name that is bound nowhere raises \<^verbatim>\<open>NameError\<close>.
\<close>

datatype exn = SubmitException string | KeyError string | NameError string

type_synonym deferred = nat

text \<open>
  Calls into the collaborators reachable through \<^verbatim>\<open>Interfaces\<close>, in the order they are made.
  \<open>OnSubmitShare\<close> carries the arguments of \<^verbatim>\<open>share_manager.on_submit_share\<close>:
  worker, header, hash, difficulty, time, accepted, ip, reason, share difficulty.
  \<open>AddCallback\<close> is \<^verbatim>\<open>on_submit.addCallback(share_manager.on_submit_block, ...)\<close>.
\<close>

datatype event =
    WorkerAuthorize string pyval
  | TimestamperTime
  | GetIp
  | ShareLimiterSubmit string pyval pyval string
  | SubmitShare string string "byte list" pyval pyval pyval pyval
  | OnSubmitShare string pyval pyval pyval pyval bool string string pyval
  | AddCallback deferred string pyval pyval pyval string pyval
  | AddConnection pyval pyval pyval pyval

text \<open>
  What \<^verbatim>\<open>template_registry.submit_share\<close> returns:
  \<^verbatim>\<open>(block_header, block_hash, share_diff, on_submit, shareAtOldDiff)\<close>;
  \<^verbatim>\<open>on_submit\<close> is a deferred or \<^verbatim>\<open>None\<close>.
\<close>

type_synonym share_result = "pyval \<times> pyval \<times> pyval \<times> deferred option \<times> pyval"

text \<open>
  The collaborators of one call. \<open>submit_share\<close> returns \<open>Inl msg\<close> when the validator
  raises \<^verbatim>\<open>SubmitException(msg)\<close>. The share limiter receives the connection and may
  update its session (it owns the retargeting of \<^verbatim>\<open>session['difficulty']\<close>).
\<close>

record interfaces =
  worker_manager_authorize :: "string \<Rightarrow> pyval \<Rightarrow> bool"
  timestamper_time :: pyval
  connection_ip :: string
  share_limiter_submit :: "string \<Rightarrow> pyval \<Rightarrow> pyval \<Rightarrow> string \<Rightarrow> session \<Rightarrow> session"
  submit_share :: "string \<Rightarrow> string \<Rightarrow> session \<Rightarrow> byte list \<Rightarrow> pyval \<Rightarrow> pyval \<Rightarrow> pyval
                     \<Rightarrow> pyval \<Rightarrow> string + share_result"

text \<open>\<^verbatim>\<open>session.setdefault('authorized', {})\<close> and the dictionary it leaves behind.\<close>

definition get_authorized :: "session \<Rightarrow> string \<rightharpoonup> pyval" where
  "get_authorized s = (case authorized s of None \<Rightarrow> Map.empty | Some m \<Rightarrow> m)"

definition setdefault_authorized :: "session \<Rightarrow> session" where
  "setdefault_authorized s = s\<lparr>authorized := Some (get_authorized s)\<rparr>"

text \<open>\<^verbatim>\<open>d.get(k)\<close>: the stored value, or \<^verbatim>\<open>None\<close> when the key is absent.\<close>

definition dict_get :: "(string \<rightharpoonup> pyval) \<Rightarrow> string \<Rightarrow> pyval" where
  "dict_get m k = (case m k of None \<Rightarrow> PyNone | Some v \<Rightarrow> v)"

text \<open>
  \<^verbatim>\<open>session.get('extranonce1', None)\<close> is \<^verbatim>\<open>None\<close> or the byte string that subscribe
  stored; \<open>py_not_bytes\<close> is Python's \<^verbatim>\<open>not extranonce1_bin\<close> on it, true for \<^verbatim>\<open>None\<close>
  and for the empty byte string.
\<close>

definition py_not_bytes :: "byte list option \<Rightarrow> bool" where
  "py_not_bytes x = (case x of None \<Rightarrow> True | Some bs \<Rightarrow> bs = [])"

definition bytes_of :: "byte list option \<Rightarrow> byte list" where
  "bytes_of x = (case x of None \<Rightarrow> [] | Some bs \<Rightarrow> bs)"

section \<open>The service operations\<close>

text \<open>\<^verbatim>\<open>MiningService.add_litecoind(self, *args)\<close>, lines 36-44.\<close>

definition add_litecoind :: "pyval list \<Rightarrow> (exn + bool) \<times> event list" where
  "add_litecoind args =
     (if length args \<noteq> 4
      then (Inl (SubmitException ''Incorrect number of parameters sent''), [])
      else (Inr True, [AddConnection (args ! 0) (args ! 1) (args ! 2) (args ! 3)]))"

text \<open>\<^verbatim>\<open>MiningService.authorize(self, worker_name, worker_password)\<close>, lines 46-58.\<close>

definition authorize ::
  "interfaces \<Rightarrow> session \<Rightarrow> string \<Rightarrow> pyval \<Rightarrow> bool \<times> session \<times> event list" where
  "authorize I s0 worker_name worker_password =
     (let s = setdefault_authorized s0;
          m = get_authorized s
      in if worker_manager_authorize I worker_name worker_password
         then (True, s\<lparr>authorized := Some (m(worker_name \<mapsto> worker_password))\<rparr>,
               [WorkerAuthorize worker_name worker_password])
         else (False,
               (if m worker_name \<noteq> None then s\<lparr>authorized := Some (m(worker_name := None))\<rparr> else s),
               [WorkerAuthorize worker_name worker_password]))"

text \<open>
  \<^verbatim>\<open>MiningService.subscribe(self, *args)\<close>, lines 60-72. The extranonce allocator is
  stateful: \<open>get_new_extranonce1\<close> takes the allocator's state and returns the value with
  the next state. \<open>extranonce2_size\<close> and \<open>POOL_TARGET\<close> are configuration of the pool;
  \<open>details\<close> is the tuple \<^verbatim>\<open>Pubsub.subscribe\<close> returns, and the returned triple stands
  for the tuple \<^verbatim>\<open>details + (extranonce1_hex, extranonce2_size)\<close>.
\<close>

definition subscribe ::
  "('a \<Rightarrow> byte list \<times> 'a) \<Rightarrow> int \<Rightarrow> pyval \<Rightarrow> 'd \<Rightarrow> 'a \<Rightarrow> session
     \<Rightarrow> ('d \<times> string \<times> int) \<times> session \<times> 'a" where
  "subscribe get_new_extranonce1 extranonce2_size POOL_TARGET details a s =
     (case get_new_extranonce1 a of
        (e1, a') \<Rightarrow>
          (let extranonce1_hex = hexlify e1;
               s1 = s\<lparr>extranonce1 := Some e1\<rparr>;
               s2 = s1\<lparr>difficulty := Some POOL_TARGET\<rparr>
           in ((details, extranonce1_hex, extranonce2_size), s2, a')))"

text \<open>
  Line 109 of the source reads \<^verbatim>\<open>if shareAtOldDiff = false:\<close>. It cannot be evaluated:
  \<^verbatim>\<open>=\<close> is assignment, which Python refuses in a test, and the name \<^verbatim>\<open>false\<close> is bound
  nowhere in the module, so that even read as the comparison \<^verbatim>\<open>shareAtOldDiff == false\<close>
  the test raises \<^verbatim>\<open>NameError\<close> for every value of \<^verbatim>\<open>shareAtOldDiff\<close>. \<open>line_109\<close> is the
  test as the source has it: it never yields a boolean.
\<close>

definition line_109 :: "pyval \<Rightarrow> exn + bool" where
  "line_109 shareAtOldDiff = Inl (NameError ''false'')"

text \<open>
  \<^verbatim>\<open>MiningService.submit(self, worker_name, job_id, extranonce2, ntime, nonce)\<close>,
  lines 74-124. The evaluation of the test on line 109 is the argument \<open>old_diff_test\<close>, and
  the source is \<open>submit line_109\<close>. An exception of the test leaves submit at line 109,
  after the validator's call and before any recording; lines 110-124 are modelled for a test
  that yields a boolean. Statements about calls that end before line 109 are made for every
  \<open>old_diff_test\<close>.
\<close>

definition submit ::
  "(pyval \<Rightarrow> exn + bool) \<Rightarrow> interfaces \<Rightarrow> session \<Rightarrow> string \<Rightarrow> string \<Rightarrow> pyval \<Rightarrow> pyval
     \<Rightarrow> pyval \<Rightarrow> (exn + bool) \<times> session \<times> event list" where
  "submit old_diff_test I s0 worker_name job_id extranonce2 ntime nonce =
     (let s = setdefault_authorized s0;
          cred = dict_get (get_authorized s) worker_name;
          ev1 = [WorkerAuthorize worker_name cred]
      in if \<not> worker_manager_authorize I worker_name cred
         then (Inl (SubmitException ''Worker is not authorized''), s, ev1)
         else if py_not_bytes (extranonce1 s)
         then (Inl (SubmitException ''Connection is not subscribed for mining''), s, ev1)
         else
           (case difficulty s of
              None \<Rightarrow> (Inl (KeyError ''difficulty''), s, ev1)
            | Some d \<Rightarrow>
               (let extranonce1_bin = bytes_of (extranonce1 s);
                    submit_time = timestamper_time I;
                    ip = connection_ip I;
                    s' = share_limiter_submit I job_id d submit_time worker_name s;
                    ev2 = ev1 @ [TimestamperTime, GetIp,
                                 ShareLimiterSubmit job_id d submit_time worker_name,
                                 SubmitShare job_id worker_name extranonce1_bin extranonce2
                                   ntime nonce d]
                in (case submit_share I job_id worker_name s' extranonce1_bin extranonce2
                          ntime nonce d of
                     Inl msg \<Rightarrow>
                       (Inl (SubmitException msg), s',
                        ev2 @ [OnSubmitShare worker_name (PyBool False) (PyBool False) d
                                 submit_time False ip msg (PyInt 0)])
                   | Inr (block_header, block_hash, share_diff, on_submit, shareAtOldDiff) \<Rightarrow>
                       (case old_diff_test shareAtOldDiff of
                          Inl e \<Rightarrow> (Inl e, s', ev2)
                        | Inr no_old_diff \<Rightarrow>
                           (Inr True, s',
                            ev2
                            @ [if no_old_diff
                               then OnSubmitShare worker_name block_header block_hash d
                                      submit_time True ip [] share_diff
                               else OnSubmitShare worker_name block_header block_hash
                                      shareAtOldDiff submit_time True ip [] share_diff]
                            @ (case on_submit of
                                 None \<Rightarrow> []
                               | Some h \<Rightarrow> [AddCallback h worker_name block_header block_hash
                                             submit_time ip share_diff])))))))"

section \<open>Concrete collaborators and sessions\<close>

text \<open>
  The comparison that the comments on lines 107-108 and 113-114 describe
  (``shareAtOldDiff still at false''): \<^verbatim>\<open>shareAtOldDiff == False\<close>. It is a repair of
  line 109 and not what the source has.
\<close>

definition eq_False_test :: "pyval \<Rightarrow> exn + bool" where
  "eq_False_test shareAtOldDiff = Inr (py_eq shareAtOldDiff (PyBool False))"

text \<open>
  A subscribed session at difficulty 16 on which \<^verbatim>\<open>alice.rig1\<close> has authorized, the same
  session after the pool changed her password (the stored credential is stale), an
  authenticator that accepts exactly the password \<^verbatim>\<open>secret\<close>, one that accepts every pair
  (as a pool without worker accounts does), and collaborators whose validator gives a fixed
  outcome and whose share limiter retargets the session to difficulty 32.
\<close>

definition example_session :: session where
  "example_session =
     \<lparr>extranonce1 = Some [0xaa, 0x11, 0xbb, 0x22],
      difficulty = Some (PyInt 16),
      authorized = Some [''alice.rig1'' \<mapsto> PyStr ''secret'']\<rparr>"


text \<open>A subscribed session on which no worker has ever authorized.\<close>

definition unauthorized_session :: session where
  "unauthorized_session =
     \<lparr>extranonce1 = Some [0xaa, 0x11, 0xbb, 0x22],
      difficulty = Some (PyInt 16),
      authorized = None\<rparr>"

definition knows_secret :: "string \<Rightarrow> pyval \<Rightarrow> bool" where
  "knows_secret w p = (p = PyStr ''secret'')"

definition accepts_all :: "string \<Rightarrow> pyval \<Rightarrow> bool" where
  "accepts_all w p = True"

definition example_interfaces ::
  "(string \<Rightarrow> pyval \<Rightarrow> bool) \<Rightarrow> string + share_result \<Rightarrow> interfaces" where
  "example_interfaces auth outcome =
     \<lparr>worker_manager_authorize = auth,
      timestamper_time = PyInt 1000,
      connection_ip = ''10.0.0.7'',
      share_limiter_submit = (\<lambda>job_id d t w s. s\<lparr>difficulty := Some (PyInt 32)\<rparr>),
      submit_share = (\<lambda>job_id w s e1 e2 ntime nonce d. outcome)\<rparr>"

text \<open>An allocator that hands out consecutive values.\<close>

definition counter_allocator :: "nat \<Rightarrow> byte list \<times> nat" where
  "counter_allocator n = ([0xaa, 0x11, 0xbb, of_nat n], Suc n)"

section \<open>Basic facts\<close>

lemma get_authorized_setdefault [simp]:
  "get_authorized (setdefault_authorized s) = get_authorized s"
  by (simp add: get_authorized_def setdefault_authorized_def)

lemma setdefault_fields [simp]:
  "extranonce1 (setdefault_authorized s) = extranonce1 s"
  "difficulty (setdefault_authorized s) = difficulty s"
  by (simp_all add: setdefault_authorized_def)

section \<open>add\_litecoind\<close>

text \<open>
  Claim C8. A call of \<^verbatim>\<open>add_litecoind\<close> whose number of positional arguments is not 4
  (3 or 5, say) raises \<^verbatim>\<open>SubmitException("Incorrect number of parameters sent")\<close> and
  makes no call to the daemon registry; with the four arguments host, port, user and
  password it calls \<^verbatim>\<open>add_connection\<close> on exactly those and returns \<^verbatim>\<open>True\<close>.
\<close>

theorem add_litecoind_arity:
  "(length args \<noteq> 4 \<longrightarrow>
      add_litecoind args = (Inl (SubmitException ''Incorrect number of parameters sent''), []))
   \<and> add_litecoind [host, port, user, password]
       = (Inr True, [AddConnection host port user password])"
  by (simp add: add_litecoind_def)

theorem add_litecoind_arity_witness:
  "add_litecoind [PyStr ''127.0.0.1'', PyInt 9332, PyStr ''rpcuser'']
     = (Inl (SubmitException ''Incorrect number of parameters sent''), [])
   \<and> add_litecoind [PyStr ''127.0.0.1'', PyInt 9332, PyStr ''rpcuser'', PyStr ''rpcpass'', PyInt 0]
     = (Inl (SubmitException ''Incorrect number of parameters sent''), [])
   \<and> add_litecoind [PyStr ''127.0.0.1'', PyInt 9332, PyStr ''rpcuser'', PyStr ''rpcpass'']
     = (Inr True, [AddConnection (PyStr ''127.0.0.1'') (PyInt 9332) (PyStr ''rpcuser'')
                     (PyStr ''rpcpass'')])"
  using add_litecoind_arity [of "[PyStr ''127.0.0.1'', PyInt 9332, PyStr ''rpcuser'']"
          "PyStr ''127.0.0.1''" "PyInt 9332" "PyStr ''rpcuser''" "PyStr ''rpcpass''"]
        add_litecoind_arity [of "[PyStr ''127.0.0.1'', PyInt 9332, PyStr ''rpcuser'',
                                  PyStr ''rpcpass'', PyInt 0]"]
  by simp

section \<open>authorize\<close>

text \<open>
  Claim C5. \<^verbatim>\<open>authorize(worker_name, password)\<close> returns what the worker authenticator
  answers for the pair. Afterwards the session's \<^verbatim>\<open>authorized\<close> dictionary holds the
  password under the worker name when the answer was yes, and has no entry for the worker name
  when the answer was no; every other entry is as before. The authenticator is consulted once,
  and the call returns a boolean in both cases: a bad credential is not an exception.
\<close>

theorem authorize_stores_or_removes:
  "fst (authorize I s w pw) = worker_manager_authorize I w pw
   \<and> get_authorized (fst (snd (authorize I s w pw)))
       = (get_authorized s)(w := if worker_manager_authorize I w pw then Some pw else None)
   \<and> snd (snd (authorize I s w pw)) = [WorkerAuthorize w pw]"
  by (auto simp add: authorize_def Let_def get_authorized_def setdefault_authorized_def)

section \<open>subscribe\<close>

text \<open>
  Claim C7. Every \<^verbatim>\<open>subscribe\<close> call asks the extranonce allocator for a value: the call
  stores what the allocator returned as the session's \<^verbatim>\<open>extranonce1\<close>, sets the session's
  difficulty to the pool default, and returns the subscription details with that value as
  a hexadecimal string and the pool's extranonce2 size. A second call on the same session asks
  the allocator again (from the state the first call left) and replaces the first value by the
  second one, so the operation is not idempotent.
\<close>

theorem subscribe_allocates_each_call:
  "get_new a = (e1, a1) \<and> get_new a1 = (e2, a2) \<longrightarrow>
     subscribe get_new sz pool details a s
       = ((details, hexlify e1, sz),
          s\<lparr>extranonce1 := Some e1, difficulty := Some pool\<rparr>, a1)
     \<and> subscribe get_new sz pool details a1
          (fst (snd (subscribe get_new sz pool details a s)))
       = ((details, hexlify e2, sz),
          s\<lparr>extranonce1 := Some e2, difficulty := Some pool\<rparr>, a2)"
  by (simp add: subscribe_def)

theorem subscribe_allocates_each_call_witness:
  "counter_allocator 34 = ([0xaa, 0x11, 0xbb, 0x22], 35)
   \<and> counter_allocator 35 = ([0xaa, 0x11, 0xbb, 0x23], 36)
   \<and> subscribe counter_allocator 4 (PyInt 16) ''mining.notify'' 34 example_session
       = ((''mining.notify'', ''aa11bb22'', 4),
          example_session\<lparr>extranonce1 := Some [0xaa, 0x11, 0xbb, 0x22],
                           difficulty := Some (PyInt 16)\<rparr>, 35)
   \<and> subscribe counter_allocator 4 (PyInt 16) ''mining.notify'' 35
        (fst (snd (subscribe counter_allocator 4 (PyInt 16) ''mining.notify'' 34 example_session)))
       = ((''mining.notify'', ''aa11bb23'', 4),
          example_session\<lparr>extranonce1 := Some [0xaa, 0x11, 0xbb, 0x23],
                           difficulty := Some (PyInt 16)\<rparr>, 36)"
proof -
  have a: "counter_allocator 34 = ([0xaa, 0x11, 0xbb, 0x22], 35)"
    by (simp add: counter_allocator_def)
  have b: "counter_allocator 35 = ([0xaa, 0x11, 0xbb, 0x23], 36)"
    by (simp add: counter_allocator_def)
  have h1: "hexlify [0xaa, 0x11, 0xbb, 0x22] = ''aa11bb22''"
    by (simp add: hexlify_def hexdigit_def)
  have h2: "hexlify [0xaa, 0x11, 0xbb, 0x23] = ''aa11bb23''"
    by (simp add: hexlify_def hexdigit_def)
  note r = subscribe_allocates_each_call [of counter_allocator 34 "[0xaa, 0x11, 0xbb, 0x22]" 35
            "[0xaa, 0x11, 0xbb, 0x23]" 36 4 "PyInt 16" "''mining.notify''" example_session,
            THEN mp, OF conjI [OF a b], unfolded h1 h2]
  show ?thesis
    using a b r by blast
qed

section \<open>submit: validation failure\<close>

text \<open>
  Claim C2. When the worker passes the authorization check, the session is subscribed and has
  a difficulty, and the validator raises \<^verbatim>\<open>SubmitException(msg)\<close>, submit records an
  invalid share (header \<^verbatim>\<open>False\<close>, hash \<^verbatim>\<open>False\<close>, the difficulty read from the session
  before the share limiter ran, accepted \<^verbatim>\<open>False\<close>, reason \<^verbatim>\<open>msg\<close>, share difficulty 0)
  as its last collaborator call, and raises the validator's exception to the caller.
\<close>

theorem submit_validation_failure_recorded:
  "worker_manager_authorize I w (dict_get (get_authorized s) w)
   \<and> extranonce1 s = Some e1 \<and> e1 \<noteq> [] \<and> difficulty s = Some d
   \<and> submit_share I job w
        (share_limiter_submit I job d (timestamper_time I) w (setdefault_authorized s))
        e1 en2 ntime nonce d = Inl msg
   \<longrightarrow>
     fst (submit t I s w job en2 ntime nonce) = Inl (SubmitException msg)
     \<and> snd (snd (submit t I s w job en2 ntime nonce))
         = [WorkerAuthorize w (dict_get (get_authorized s) w), TimestamperTime, GetIp,
            ShareLimiterSubmit job d (timestamper_time I) w,
            SubmitShare job w e1 en2 ntime nonce d,
            OnSubmitShare w (PyBool False) (PyBool False) d (timestamper_time I) False
              (connection_ip I) msg (PyInt 0)]"
  by (simp add: submit_def Let_def py_not_bytes_def bytes_of_def)

theorem submit_validation_failure_recorded_witness:
  "fst (submit line_109 (example_interfaces knows_secret (Inl ''Job not found''))
          example_session ''alice.rig1'' ''job1'' (PyStr ''00000001'') (PyStr ''5f5e1000'')
          (PyStr ''deadbeef''))
     = Inl (SubmitException ''Job not found'')
   \<and> snd (snd (submit line_109 (example_interfaces knows_secret (Inl ''Job not found''))
          example_session ''alice.rig1'' ''job1'' (PyStr ''00000001'') (PyStr ''5f5e1000'')
          (PyStr ''deadbeef'')))
     = [WorkerAuthorize ''alice.rig1'' (PyStr ''secret''), TimestamperTime, GetIp,
        ShareLimiterSubmit ''job1'' (PyInt 16) (PyInt 1000) ''alice.rig1'',
        SubmitShare ''job1'' ''alice.rig1'' [0xaa, 0x11, 0xbb, 0x22] (PyStr ''00000001'')
          (PyStr ''5f5e1000'') (PyStr ''deadbeef'') (PyInt 16),
        OnSubmitShare ''alice.rig1'' (PyBool False) (PyBool False) (PyInt 16) (PyInt 1000) False
          ''10.0.0.7'' ''Job not found'' (PyInt 0)]"
  using submit_validation_failure_recorded
          [of "example_interfaces knows_secret (Inl ''Job not found'')" "''alice.rig1''"
              example_session "[0xaa, 0x11, 0xbb, 0x22]" "PyInt 16" "''job1''"
              "PyStr ''00000001''" "PyStr ''5f5e1000''" "PyStr ''deadbeef''" "''Job not found''"
              line_109]
  by (simp add: example_interfaces_def example_session_def knows_secret_def dict_get_def
        get_authorized_def)

section \<open>submit: shares that pass validation\<close>

text \<open>
  What lines 107-124 are written to do, for a test on line 109 that yields a boolean: the
  accepted share is recorded at the session's difficulty when the test holds and at
  \<^verbatim>\<open>shareAtOldDiff\<close> when it does not, the callback is registered on the validator's deferred
  when there is one, and submit returns \<^verbatim>\<open>True\<close>. With the comparison
  \<^verbatim>\<open>shareAtOldDiff == False\<close> the sentinel \<^verbatim>\<open>False\<close> selects the session's difficulty and
  every truthy value the old one; \<^verbatim>\<open>None\<close> is not equal to \<^verbatim>\<open>False\<close>.
\<close>

lemma submit_when_test_yields_boolean:
  "worker_manager_authorize I w (dict_get (get_authorized s) w)
   \<and> extranonce1 s = Some e1 \<and> e1 \<noteq> [] \<and> difficulty s = Some d
   \<and> submit_share I job w
        (share_limiter_submit I job d (timestamper_time I) w (setdefault_authorized s))
        e1 en2 ntime nonce d = Inr (block_header, block_hash, share_diff, on_submit, old)
   \<and> t old = Inr b
   \<longrightarrow>
     fst (submit t I s w job en2 ntime nonce) = Inr True
     \<and> snd (snd (submit t I s w job en2 ntime nonce))
         = [WorkerAuthorize w (dict_get (get_authorized s) w), TimestamperTime, GetIp,
            ShareLimiterSubmit job d (timestamper_time I) w,
            SubmitShare job w e1 en2 ntime nonce d,
            OnSubmitShare w block_header block_hash (if b then d else old)
              (timestamper_time I) True (connection_ip I) [] share_diff]
           @ (case on_submit of
                None \<Rightarrow> []
              | Some h \<Rightarrow> [AddCallback h w block_header block_hash (timestamper_time I)
                            (connection_ip I) share_diff])"
  by (simp add: submit_def Let_def py_not_bytes_def bytes_of_def)

lemma eq_False_test_credit:
  "eq_False_test (PyBool False) = Inr True
   \<and> (py_truthy v \<longrightarrow> eq_False_test v = Inr False)
   \<and> eq_False_test PyNone = Inr False"
  by (cases v) (auto simp add: eq_False_test_def py_eq_def)

text \<open>
  Claim C1. A share accepted with a non-falsy \<^verbatim>\<open>shareAtOldDiff\<close> is to be recorded as
  accepted at that old difficulty. The source does not do it: for \<^verbatim>\<open>alice.rig1\<close>,
  authorized on a subscribed session at difficulty 16, and a share that the validator accepts
  with share difficulty 8 and \<^verbatim>\<open>shareAtOldDiff = 8\<close>, submit ends at line 109 with
  \<^verbatim>\<open>NameError\<close>. The calls made are the authorization, the clock, the ip, the share limiter
  and the validator; the share is recorded neither at difficulty 8 nor at any other.
\<close>

theorem submit_old_diff_share_not_recorded:
  "fst (submit line_109
            (example_interfaces knows_secret
               (Inr (PyStr ''hdr'', PyStr ''hash'', PyInt 8, None, PyInt 8)))
            example_session ''alice.rig1'' ''job1'' (PyStr ''00000001'') (PyStr ''5f5e1000'')
            (PyStr ''deadbeef'')) = Inl (NameError ''false'')
   \<and> snd (snd (submit line_109
            (example_interfaces knows_secret
               (Inr (PyStr ''hdr'', PyStr ''hash'', PyInt 8, None, PyInt 8)))
            example_session ''alice.rig1'' ''job1'' (PyStr ''00000001'') (PyStr ''5f5e1000'')
            (PyStr ''deadbeef'')))
     = [WorkerAuthorize ''alice.rig1'' (PyStr ''secret''), TimestamperTime, GetIp,
        ShareLimiterSubmit ''job1'' (PyInt 16) (PyInt 1000) ''alice.rig1'',
        SubmitShare ''job1'' ''alice.rig1'' [0xaa, 0x11, 0xbb, 0x22] (PyStr ''00000001'')
          (PyStr ''5f5e1000'') (PyStr ''deadbeef'') (PyInt 16)]"
  by (simp add: submit_def Let_def line_109_def example_session_def example_interfaces_def
        knows_secret_def get_authorized_def setdefault_authorized_def dict_get_def py_not_bytes_def
        bytes_of_def)

text \<open>
  Claim C6. A share that passes validation is to be answered with \<^verbatim>\<open>True\<close> after its
  recording, with a callback registered on the validator's deferred when there is one. The
  source does not do it: for \<^verbatim>\<open>alice.rig1\<close> on the same session and a block-solving share
  that the validator accepts with the deferred 7 and \<^verbatim>\<open>shareAtOldDiff = False\<close>, submit ends
  at line 109 with \<^verbatim>\<open>NameError\<close> instead of returning \<^verbatim>\<open>True\<close>; the share is not recorded
  and no callback is registered on the deferred.
\<close>

theorem submit_block_share_not_answered:
  "fst (submit line_109
            (example_interfaces knows_secret
               (Inr (PyStr ''hdr'', PyStr ''hash'', PyInt 4096, Some 7, PyBool False)))
            example_session ''alice.rig1'' ''job1'' (PyStr ''00000001'') (PyStr ''5f5e1000'')
            (PyStr ''deadbeef'')) = Inl (NameError ''false'')
   \<and> snd (snd (submit line_109
            (example_interfaces knows_secret
               (Inr (PyStr ''hdr'', PyStr ''hash'', PyInt 4096, Some 7, PyBool False)))
            example_session ''alice.rig1'' ''job1'' (PyStr ''00000001'') (PyStr ''5f5e1000'')
            (PyStr ''deadbeef'')))
     = [WorkerAuthorize ''alice.rig1'' (PyStr ''secret''), TimestamperTime, GetIp,
        ShareLimiterSubmit ''job1'' (PyInt 16) (PyInt 1000) ''alice.rig1'',
        SubmitShare ''job1'' ''alice.rig1'' [0xaa, 0x11, 0xbb, 0x22] (PyStr ''00000001'')
          (PyStr ''5f5e1000'') (PyStr ''deadbeef'') (PyInt 16)]"
  by (simp add: submit_def Let_def line_109_def example_session_def example_interfaces_def
        knows_secret_def get_authorized_def setdefault_authorized_def dict_get_def py_not_bytes_def
        bytes_of_def)

section \<open>submit: the authorization check\<close>



text \<open>
  Claim C3, as stated, fails: a worker that never authorized on the connection is not
  rejected at the authorization check when the authenticator accepts every pair. On a
  subscribed session with no \<^verbatim>\<open>authorized\<close> dictionary at all, the share of
  \<^verbatim>\<open>mallory.rig9\<close> goes through the share limiter and the validator, and the exception
  that ends the call is not the authorization one.
\<close>

theorem submit_unauthorized_counterexample:
  "get_authorized unauthorized_session ''mallory.rig9'' = None
   \<and> fst (submit line_109
            (example_interfaces accepts_all
               (Inr (PyStr ''hdr'', PyStr ''hash'', PyInt 16, None, PyBool False)))
            unauthorized_session ''mallory.rig9'' ''job1'' (PyStr ''00000001'') (PyStr ''5f5e1000'')
            (PyStr ''deadbeef'')) = Inl (NameError ''false'')
   \<and> snd (snd (submit line_109
            (example_interfaces accepts_all
               (Inr (PyStr ''hdr'', PyStr ''hash'', PyInt 16, None, PyBool False)))
            unauthorized_session ''mallory.rig9'' ''job1'' (PyStr ''00000001'') (PyStr ''5f5e1000'')
            (PyStr ''deadbeef'')))
     = [WorkerAuthorize ''mallory.rig9'' PyNone, TimestamperTime, GetIp,
        ShareLimiterSubmit ''job1'' (PyInt 16) (PyInt 1000) ''mallory.rig9'',
        SubmitShare ''job1'' ''mallory.rig9'' [0xaa, 0x11, 0xbb, 0x22] (PyStr ''00000001'')
          (PyStr ''5f5e1000'') (PyStr ''deadbeef'') (PyInt 16)]"
  by (simp add: submit_def Let_def line_109_def unauthorized_session_def example_interfaces_def
        accepts_all_def get_authorized_def setdefault_authorized_def dict_get_def py_not_bytes_def
        bytes_of_def)

text \<open>
  Claim C3, amended. For a worker with no entry in the session's \<^verbatim>\<open>authorized\<close>
  dictionary, when the worker authenticator rejects the pair of the worker name and \<^verbatim>\<open>None\<close>,
  submit raises \<^verbatim>\<open>SubmitException("Worker is not authorized")\<close>; the authenticator call is
  the only call made (no share limiter, no validator, no recording), and the session is
  changed by \<^verbatim>\<open>setdefault\<close> only. submit takes no password, so the outcome cannot depend
  on one.
\<close>

theorem submit_unauthorized_rejected_when_authenticator_rejects_None:
  "get_authorized s w = None \<and> \<not> worker_manager_authorize I w PyNone \<longrightarrow>
     submit t I s w job en2 ntime nonce
       = (Inl (SubmitException ''Worker is not authorized''), setdefault_authorized s,
          [WorkerAuthorize w PyNone])"
  by (simp add: submit_def Let_def dict_get_def)

theorem submit_unauthorized_rejected_witness:
  "get_authorized unauthorized_session ''mallory.rig9'' = None
   \<and> \<not> knows_secret ''mallory.rig9'' PyNone
   \<and> submit line_109
        (example_interfaces knows_secret
           (Inr (PyStr ''hdr'', PyStr ''hash'', PyInt 16, None, PyBool False)))
        unauthorized_session ''mallory.rig9'' ''job1'' (PyStr ''00000001'')
        (PyStr ''5f5e1000'') (PyStr ''deadbeef'')
     = (Inl (SubmitException ''Worker is not authorized''),
        setdefault_authorized unauthorized_session,
        [WorkerAuthorize ''mallory.rig9'' PyNone])"
  using submit_unauthorized_rejected_when_authenticator_rejects_None
          [where s = unauthorized_session and w = "''mallory.rig9''"
             and I = "example_interfaces knows_secret
                        (Inr (PyStr ''hdr'', PyStr ''hash'', PyInt 16, None, PyBool False))"
             and t = line_109 and job = "''job1''"
             and ?en2.0 = "PyStr ''00000001''" and ntime = "PyStr ''5f5e1000''"
             and nonce = "PyStr ''deadbeef''"]
  by (simp add: example_interfaces_def unauthorized_session_def knows_secret_def
        get_authorized_def)

section \<open>submit: the subscription check\<close>

text \<open>
  Claim C4. On a session without \<^verbatim>\<open>extranonce1\<close> every submit call raises a
  \<^verbatim>\<open>SubmitException\<close>. When the worker passes the authorization check, the exception is
  \<^verbatim>\<open>SubmitException("Connection is not subscribed for mining")\<close>, and the authorization
  call is the only collaborator call made: the clock, the ip, the share limiter and the
  validator are not reached.
\<close>

theorem submit_unsubscribed_fails:
  "extranonce1 s = None \<longrightarrow>
     (\<exists>msg. fst (submit t I s w job en2 ntime nonce) = Inl (SubmitException msg))
     \<and> (worker_manager_authorize I w (dict_get (get_authorized s) w) \<longrightarrow>
          submit t I s w job en2 ntime nonce
            = (Inl (SubmitException ''Connection is not subscribed for mining''),
               setdefault_authorized s,
               [WorkerAuthorize w (dict_get (get_authorized s) w)]))"
  by (simp add: submit_def Let_def py_not_bytes_def)

theorem submit_unsubscribed_fails_witness:
  "extranonce1 (example_session\<lparr>extranonce1 := None\<rparr>) = None
   \<and> knows_secret ''alice.rig1'' (PyStr ''secret'')
   \<and> submit line_109 (example_interfaces knows_secret (Inl ''unused''))
        (example_session\<lparr>extranonce1 := None\<rparr>) ''alice.rig1'' ''job1'' (PyStr ''00000001'')
        (PyStr ''5f5e1000'') (PyStr ''deadbeef'')
     = (Inl (SubmitException ''Connection is not subscribed for mining''),
        setdefault_authorized (example_session\<lparr>extranonce1 := None\<rparr>),
        [WorkerAuthorize ''alice.rig1'' (PyStr ''secret'')])"
  using submit_unsubscribed_fails
          [where s = "example_session\<lparr>extranonce1 := None\<rparr>"
             and I = "example_interfaces knows_secret (Inl ''unused'')"
             and w = "''alice.rig1''" and t = line_109 and job = "''job1''"
             and ?en2.0 = "PyStr ''00000001''" and ntime = "PyStr ''5f5e1000''"
             and nonce = "PyStr ''deadbeef''"]
  by (simp add: example_interfaces_def example_session_def knows_secret_def dict_get_def
        get_authorized_def)

text \<open>
  Claim C10. A session whose \<^verbatim>\<open>extranonce1\<close> is the empty byte string gets from submit the
  same result and the same collaborator calls as the session with no \<^verbatim>\<open>extranonce1\<close>; when
  the worker passes the authorization check, that result is
  \<^verbatim>\<open>SubmitException("Connection is not subscribed for mining")\<close>.
\<close>

theorem submit_empty_extranonce1_as_unsubscribed:
  "extranonce1 s = Some [] \<longrightarrow>
     fst (submit t I s w job en2 ntime nonce)
       = fst (submit t I (s\<lparr>extranonce1 := None\<rparr>) w job en2 ntime nonce)
     \<and> snd (snd (submit t I s w job en2 ntime nonce))
       = snd (snd (submit t I (s\<lparr>extranonce1 := None\<rparr>) w job en2 ntime nonce))
     \<and> (worker_manager_authorize I w (dict_get (get_authorized s) w) \<longrightarrow>
          fst (submit t I s w job en2 ntime nonce)
            = Inl (SubmitException ''Connection is not subscribed for mining'')
          \<and> snd (snd (submit t I s w job en2 ntime nonce))
            = [WorkerAuthorize w (dict_get (get_authorized s) w)])"
  by (simp add: submit_def Let_def py_not_bytes_def get_authorized_def setdefault_authorized_def)

theorem submit_empty_extranonce1_as_unsubscribed_witness:
  "extranonce1 (example_session\<lparr>extranonce1 := Some []\<rparr>) = Some []
   \<and> knows_secret ''alice.rig1'' (PyStr ''secret'')
   \<and> fst (submit line_109 (example_interfaces knows_secret (Inl ''unused''))
        (example_session\<lparr>extranonce1 := Some []\<rparr>) ''alice.rig1'' ''job1'' (PyStr ''00000001'')
        (PyStr ''5f5e1000'') (PyStr ''deadbeef''))
     = Inl (SubmitException ''Connection is not subscribed for mining'')
   \<and> snd (snd (submit line_109 (example_interfaces knows_secret (Inl ''unused''))
        (example_session\<lparr>extranonce1 := Some []\<rparr>) ''alice.rig1'' ''job1'' (PyStr ''00000001'')
        (PyStr ''5f5e1000'') (PyStr ''deadbeef'')))
     = [WorkerAuthorize ''alice.rig1'' (PyStr ''secret'')]"
proof -
  let ?s = "example_session\<lparr>extranonce1 := Some []\<rparr>"
  let ?I = "example_interfaces knows_secret (Inl ''unused'')"
  have sub: "extranonce1 ?s = Some []"
    by simp
  have cred: "dict_get (get_authorized ?s) ''alice.rig1'' = PyStr ''secret''"
    by (simp add: example_session_def dict_get_def get_authorized_def)
  have ok: "knows_secret ''alice.rig1'' (PyStr ''secret'')"
    by (simp add: knows_secret_def)
  have auth: "worker_manager_authorize ?I ''alice.rig1'' (dict_get (get_authorized ?s) ''alice.rig1'')"
    using ok by (simp add: cred example_interfaces_def)
  note r = submit_empty_extranonce1_as_unsubscribed
             [where s = ?s and I = ?I and w = "''alice.rig1''" and t = line_109
                and job = "''job1''" and ?en2.0 = "PyStr ''00000001''"
                and ntime = "PyStr ''5f5e1000''" and nonce = "PyStr ''deadbeef''",
              THEN mp, OF sub, THEN conjunct2, THEN conjunct2, THEN mp, OF auth,
              unfolded cred]
  show ?thesis
    using sub ok r by blast
qed

end
